theory Spec2Isabelle
  imports Main "HOL-Library.Word" "HOL-Library.Monad_Syntax"
begin

unbundle bit_operations_syntax

section \<open>Self-tests of the FIPS 140 module (crypto/fips140-selftests.c)\<close>

text \<open>
  A shallow embedding of \<^verbatim>\<open>crypto/fips140-selftests.c\<close>.

  \<^item> A C function returning \<^verbatim>\<open>int\<close> returns an \<open>int\<close> here: 0 is success, every
    other value a failure (the callers test \<^verbatim>\<open>if (err)\<close>).
  \<^item> The kernel around the file (the crypto API, the AES and SHA-256 library, the
    allocator) is a parameter: records of functions over an abstract world \<open>'w\<close>, with
    instances (tfm objects) named by handles \<open>'h\<close>.
  \<^item> Every call that leaves the file and every message it prints is appended to a log,
    so that the order of the calls can be stated.
  \<^item> A run of a function is an \<open>option\<close>: \<open>None\<close> is behaviour the C standard leaves
    undefined (an access outside a buffer, the use of an invalid pointer, the use of the
    union member of another family).
\<close>

subsection \<open>Machine types, constants of the kernel headers\<close>

type_synonym u8 = "8 word"
type_synonym u32 = "32 word"
type_synonym size_t = "64 word"

text \<open>
  The constants below come from kernel headers that are not part of the file
  (errno-base.h, errno.h, err.h, crypto.h, algapi.h, hash.h, aes.h, sha.h, slab.h).
  \<open>KMALLOC_MAX_SIZE\<close> is the value for 4K pages and \<open>MAX_ORDER = 11\<close>; all that is
  used of it is that it is below \<open>2 ^ 31\<close>.
\<close>

definition ENOMEM :: int where "ENOMEM = 12"
definition EINVAL :: int where "EINVAL = 22"
definition EBADMSG :: int where "EBADMSG = 74"
definition MAX_ERRNO :: int where "MAX_ERRNO = 4095"
definition CRYPTO_ALG_ASYNC :: u32 where "CRYPTO_ALG_ASYNC = 0x80"
definition MAX_CIPHER_BLOCKSIZE :: nat where "MAX_CIPHER_BLOCKSIZE = 16"
definition HASH_MAX_DIGESTSIZE :: nat where "HASH_MAX_DIGESTSIZE = 64"
definition AES_BLOCK_SIZE :: nat where "AES_BLOCK_SIZE = 16"
definition SHA256_DIGEST_SIZE :: nat where "SHA256_DIGEST_SIZE = 32"
definition KMALLOC_MAX_SIZE :: nat where "KMALLOC_MAX_SIZE = 2 ^ 22"

text \<open>\<^verbatim>\<open>#define MAX_IV_SIZE 16\<close>\<close>

definition MAX_IV_SIZE :: nat where "MAX_IV_SIZE = 16"

subsection \<open>Test vectors\<close>

text \<open>
  A \<^verbatim>\<open>const u8 *\<close> field is \<open>None\<close> for \<^verbatim>\<open>NULL\<close> and otherwise the bytes of the object
  it points to. The fields carry a prefix for their struct, since several structs
  share field names.
\<close>

record blockcipher_testvec =
  bc_key :: "u8 list option"
  bc_key_size :: size_t
  bc_plaintext :: "u8 list option"
  bc_ciphertext :: "u8 list option"
  bc_block_size :: size_t

record aead_testvec =
  aead_key :: "u8 list option"
  aead_key_size :: size_t
  aead_iv :: "u8 list option"
  aead_iv_size :: size_t
  aead_assoc :: "u8 list option"
  aead_assoc_size :: size_t
  aead_plaintext :: "u8 list option"
  aead_plaintext_size :: size_t
  aead_ciphertext :: "u8 list option"
  aead_ciphertext_size :: size_t

record skcipher_testvec =
  sk_key :: "u8 list option"
  sk_key_size :: size_t
  sk_iv :: "u8 list option"
  sk_iv_size :: size_t
  sk_plaintext :: "u8 list option"
  sk_ciphertext :: "u8 list option"
  sk_message_size :: size_t

record hash_testvec =
  hash_key :: "u8 list option"
  hash_key_size :: size_t
  hash_message :: "u8 list option"
  hash_message_size :: size_t
  hash_digest :: "u8 list option"
  hash_digest_size :: size_t

record drbg_testvec =
  drbg_entropy :: "u8 list option"
  drbg_entropy_size :: size_t
  drbg_pers :: "u8 list option"
  drbg_pers_size :: size_t
  drbg_entpr_a :: "u8 list option"
  drbg_entpr_b :: "u8 list option"
  drbg_entpr_size :: size_t
  drbg_add_a :: "u8 list option"
  drbg_add_b :: "u8 list option"
  drbg_add_size :: size_t
  drbg_output :: "u8 list option"
  drbg_out_size :: size_t

text \<open>The anonymous union of \<^verbatim>\<open>struct fips_test\<close>, with the member that was initialised.\<close>

datatype testvec =
  Blockcipher blockcipher_testvec
| Aead aead_testvec
| Skcipher skcipher_testvec
| Hash hash_testvec
| Drbg drbg_testvec

text \<open>The functions a \<^verbatim>\<open>.func\<close> pointer can hold.\<close>

datatype test_func =
  Fips_test_blockcipher
| Fips_test_aes
| Fips_test_skcipher
| Fips_test_aead
| Fips_test_hash
| Fips_test_sha256_library
| Fips_test_drbg

record fips_test =
  alg :: string
  func :: test_func
  vector :: testvec

text \<open>
  Reading a member of the union: the member of another family than the one initialised
  is a reinterpretation of its bytes, which this model leaves undefined.
\<close>

definition test_blockcipher :: "fips_test \<Rightarrow> blockcipher_testvec option" where
  "test_blockcipher test = (case vector test of Blockcipher v \<Rightarrow> Some v | _ \<Rightarrow> None)"

definition test_aead :: "fips_test \<Rightarrow> aead_testvec option" where
  "test_aead test = (case vector test of Aead v \<Rightarrow> Some v | _ \<Rightarrow> None)"

definition test_skcipher :: "fips_test \<Rightarrow> skcipher_testvec option" where
  "test_skcipher test = (case vector test of Skcipher v \<Rightarrow> Some v | _ \<Rightarrow> None)"

definition test_hash :: "fips_test \<Rightarrow> hash_testvec option" where
  "test_hash test = (case vector test of Hash v \<Rightarrow> Some v | _ \<Rightarrow> None)"

definition test_drbg :: "fips_test \<Rightarrow> drbg_testvec option" where
  "test_drbg test = (case vector test of Drbg v \<Rightarrow> Some v | _ \<Rightarrow> None)"

subsection \<open>The log and the state\<close>

datatype arg = Str string | Num int | Bytes "u8 list"

datatype level = KERN_EMERG | KERN_ERR | KERN_INFO

text \<open>
  \<open>Call f args\<close>: the file called the external function \<open>f\<close>; \<open>args\<close> are the
  arguments worth recording. \<open>Printk\<close>: a message, as its format (without the final
  newline) and its arguments. \<open>Warn\<close>: a \<^verbatim>\<open>WARN_ON\<close> whose condition held.
\<close>

datatype event =
  Call string "arg list"
| Printk level string "arg list"
| Warn

record 'w kstate =
  world :: 'w
  klog :: "event list"

definition emit :: "event \<Rightarrow> 'w kstate \<Rightarrow> 'w kstate" where
  "emit e s = s\<lparr>klog := klog s @ [e]\<rparr>"

definition pr_err :: "string \<Rightarrow> arg list \<Rightarrow> 'w kstate \<Rightarrow> 'w kstate" where
  "pr_err fmt args = emit (Printk KERN_ERR fmt args)"

definition pr_info :: "string \<Rightarrow> arg list \<Rightarrow> 'w kstate \<Rightarrow> 'w kstate" where
  "pr_info fmt args = emit (Printk KERN_INFO fmt args)"

definition pr_emerg :: "string \<Rightarrow> arg list \<Rightarrow> 'w kstate \<Rightarrow> 'w kstate" where
  "pr_emerg fmt args = emit (Printk KERN_EMERG fmt args)"

text \<open>A call of an external function: it acts on the world, and the log records it.\<close>

definition call :: "string \<Rightarrow> arg list \<Rightarrow> ('w \<Rightarrow> 'r \<times> 'w) \<Rightarrow> 'w kstate \<Rightarrow> 'r \<times> 'w kstate" where
  "call name args f s =
     (let (r, w) = f (world s) in (r, \<lparr>world = w, klog = klog s @ [Call name args]\<rparr>))"

definition call_void :: "string \<Rightarrow> arg list \<Rightarrow> ('w \<Rightarrow> 'w) \<Rightarrow> 'w kstate \<Rightarrow> 'w kstate" where
  "call_void name args f s = \<lparr>world = f (world s), klog = klog s @ [Call name args]\<rparr>"

text \<open>The events a run added to the log.\<close>

definition new_events :: "'w kstate \<Rightarrow> 'w kstate \<Rightarrow> event list" where
  "new_events s s' = drop (length (klog s)) (klog s')"

subsection \<open>Pointers and buffers\<close>

text \<open>
  The result of a \<^verbatim>\<open>crypto_alloc_*\<close>: the address of an object, or an integer cast to
  a pointer (\<^verbatim>\<open>ERR_PTR\<close>). \<^verbatim>\<open>IS_ERR\<close> and \<^verbatim>\<open>PTR_ERR\<close> are the macros of err.h.
\<close>

datatype 'h ptr = Object 'h | Cast int

definition IS_ERR :: "'h ptr \<Rightarrow> bool" where
  "IS_ERR p = (case p of Object _ \<Rightarrow> False | Cast e \<Rightarrow> - MAX_ERRNO \<le> e \<and> e < 0)"

definition PTR_ERR :: "'h ptr \<Rightarrow> int" where
  "PTR_ERR p = (case p of Object _ \<Rightarrow> 0 | Cast e \<Rightarrow> e)"

definition deref :: "'h ptr \<Rightarrow> 'h option" where
  "deref p = (case p of Object h \<Rightarrow> Some h | Cast _ \<Rightarrow> None)"

text \<open>
  A buffer is the list of its bytes. Reading or writing beyond its end is undefined.
  What an external function writes to a buffer of \<open>n\<close> bytes is cut or padded to \<open>n\<close>
  bytes: it writes exactly the bytes it is asked for.
\<close>

definition fit :: "nat \<Rightarrow> u8 list \<Rightarrow> u8 list" where
  "fit n bs = take n bs @ replicate (n - length bs) 0"

definition read_bytes :: "u8 list \<Rightarrow> nat \<Rightarrow> u8 list option" where
  "read_bytes buf n = (if n \<le> length buf then Some (take n buf) else None)"

definition read_ptr :: "u8 list option \<Rightarrow> nat \<Rightarrow> u8 list option" where
  "read_ptr p n =
     (if n = 0 then Some []
      else case p of None \<Rightarrow> None | Some buf \<Rightarrow> read_bytes buf n)"

definition write_bytes :: "u8 list \<Rightarrow> u8 list \<Rightarrow> u8 list option" where
  "write_bytes buf bs =
     (if length bs \<le> length buf then Some (bs @ drop (length bs) buf) else None)"

definition memcpy :: "u8 list \<Rightarrow> u8 list option \<Rightarrow> nat \<Rightarrow> u8 list option" where
  "memcpy dst src n = do { bs \<leftarrow> read_ptr src n; write_bytes dst bs }"

text \<open>\<^verbatim>\<open>memcmp(a, b, n) != 0\<close>: the file uses nothing else of the result.\<close>

definition memcmp_differs :: "u8 list \<Rightarrow> u8 list option \<Rightarrow> nat \<Rightarrow> bool option" where
  "memcmp_differs a b n = do { x \<leftarrow> read_bytes a n; y \<leftarrow> read_ptr b n; Some (x \<noteq> y) }"

text \<open>
  The allocator, and what uninitialised automatic variables hold. A request above
  \<open>KMALLOC_MAX_SIZE\<close> fails; whether another one succeeds is up to the allocator.
\<close>

record 'w mem_api =
  kmalloc_succeeds :: "nat \<Rightarrow> 'w \<Rightarrow> bool \<times> 'w"
  kfree_object :: "'w \<Rightarrow> 'w"
  indeterminate :: "nat \<Rightarrow> 'w \<Rightarrow> u8 list"

definition kmalloc :: "'w mem_api \<Rightarrow> string \<Rightarrow> nat \<Rightarrow> 'w kstate \<Rightarrow> bool \<times> 'w kstate" where
  "kmalloc M name n s =
     (let (ok, s') = call name [Num (int n)] (kmalloc_succeeds M n) s
      in (ok \<and> n \<le> KMALLOC_MAX_SIZE, s'))"

text \<open>\<^verbatim>\<open>kzalloc(n, GFP_KERNEL)\<close>: \<open>None\<close> is \<^verbatim>\<open>NULL\<close>.\<close>

definition kzalloc :: "'w mem_api \<Rightarrow> nat \<Rightarrow> 'w kstate \<Rightarrow> u8 list option \<times> 'w kstate" where
  "kzalloc M n s =
     (let (ok, s') = kmalloc M ''kzalloc'' n s
      in (if ok then Some (replicate n 0) else None, s'))"

text \<open>
  \<^verbatim>\<open>kmemdup(src, n, GFP_KERNEL)\<close>: the outer \<open>option\<close> is the undefined behaviour of
  reading \<open>n\<close> bytes at \<open>src\<close>, the inner one is \<^verbatim>\<open>NULL\<close>.
\<close>

definition kmemdup :: "'w mem_api \<Rightarrow> u8 list option \<Rightarrow> nat \<Rightarrow> 'w kstate \<Rightarrow> (u8 list option \<times> 'w kstate) option" where
  "kmemdup M src n s =
     (let (ok, s') = kmalloc M ''kmemdup'' n s
      in if ok then do { bs \<leftarrow> read_ptr src n; Some (Some bs, s') } else Some (None, s'))"

text \<open>\<^verbatim>\<open>kfree(p)\<close>: nothing happens to the world when \<open>p\<close> is \<^verbatim>\<open>NULL\<close>.\<close>

definition kfree :: "'w mem_api \<Rightarrow> u8 list option \<Rightarrow> 'w kstate \<Rightarrow> 'w kstate" where
  "kfree M p s = call_void ''kfree'' [] (case p of None \<Rightarrow> id | Some _ \<Rightarrow> kfree_object M) s"

text \<open>An automatic array of \<open>n\<close> bytes, before anything is stored in it.\<close>

definition local_array :: "'w mem_api \<Rightarrow> nat \<Rightarrow> 'w kstate \<Rightarrow> u8 list" where
  "local_array M n s = fit n (indeterminate M n (world s))"

subsection \<open>The comparator and the validator\<close>

text \<open>
  The fault injection: \<open>error_injection\<close> is
  \<^verbatim>\<open>CONFIG_CRYPTO_FIPS140_MOD_ERROR_INJECTION\<close>, \<open>fips140_broken_alg\<close> the module
  parameter (\<open>None\<close> is \<^verbatim>\<open>NULL\<close>).
\<close>

record config =
  error_injection :: bool
  fips140_broken_alg :: "string option"

text \<open>
  \<^verbatim>\<open>fips140_broken_alg && strcmp(test->alg, fips140_broken_alg) == 0\<close>, under the
  \<^verbatim>\<open>#ifdef\<close>.
\<close>

definition injects :: "config \<Rightarrow> fips_test \<Rightarrow> bool" where
  "injects cfg test =
     (error_injection cfg \<and>
      (case fips140_broken_alg cfg of None \<Rightarrow> False | Some broken \<Rightarrow> alg test = broken))"

text \<open>\<^verbatim>\<open>result[0] ^= 0xff\<close>\<close>

definition corrupt :: "u8 list \<Rightarrow> u8 list option" where
  "corrupt result = (case result of [] \<Rightarrow> None | b # bs \<Rightarrow> Some ((b XOR 0xff) # bs))"

text \<open>Returns the error code, the result buffer as the call leaves it, and the state.\<close>

definition fips_check_result ::
  "config \<Rightarrow> fips_test \<Rightarrow> u8 list \<Rightarrow> u8 list option \<Rightarrow> size_t \<Rightarrow> string \<Rightarrow> 'w kstate
   \<Rightarrow> (int \<times> u8 list \<times> 'w kstate) option" where
  "fips_check_result cfg test result expected_result result_size operation s = do {
     result \<leftarrow> (if injects cfg test then corrupt result else Some result);
     differs \<leftarrow> memcmp_differs result expected_result (unat result_size);
     if differs
     then Some (- EBADMSG, result,
                pr_err ''wrong result from %s %s'' [Str (alg test), Str operation] s)
     else Some (0, result, s)
   }"

record crypto_alg =
  cra_flags :: u32
  cra_name :: string
  cra_driver_name :: string

definition fips_validate_alg :: "crypto_alg \<Rightarrow> 'w kstate \<Rightarrow> int \<times> 'w kstate" where
  "fips_validate_alg a s =
     (if cra_flags a AND CRYPTO_ALG_ASYNC \<noteq> 0
      then (- EINVAL,
            pr_err ''unexpectedly got async implementation of %s (%s)''
              [Str (cra_name a), Str (cra_driver_name a)] s)
      else (0, s))"


subsection \<open>Block ciphers: the crypto_cipher API and the AES library\<close>

text \<open>
  In each API record, the algorithm of an instance (\<^verbatim>\<open>struct crypto_alg\<close>) and the sizes
  the instance reports are fixed with the instance; every other function acts on the
  world.
\<close>

record ('w, 'h) cipher_api =
  crypto_alloc_cipher :: "string \<Rightarrow> 'w \<Rightarrow> 'h ptr \<times> 'w"
  crypto_cipher_alg :: "'h \<Rightarrow> crypto_alg"
  crypto_cipher_blocksize :: "'h \<Rightarrow> u32"
  crypto_cipher_setkey :: "'h \<Rightarrow> u8 list \<Rightarrow> 'w \<Rightarrow> int \<times> 'w"
  crypto_cipher_encrypt_one :: "'h \<Rightarrow> u8 list \<Rightarrow> 'w \<Rightarrow> u8 list \<times> 'w"
  crypto_cipher_decrypt_one :: "'h \<Rightarrow> u8 list \<Rightarrow> 'w \<Rightarrow> u8 list \<times> 'w"
  crypto_free_cipher :: "'h \<Rightarrow> 'w \<Rightarrow> 'w"

text \<open>\<^verbatim>\<open>struct crypto_aes_ctx\<close>: the words of the expanded key.\<close>

type_synonym crypto_aes_ctx = "u32 list"

record 'w lib_api =
  aes_expandkey :: "u8 list \<Rightarrow> 'w \<Rightarrow> (int \<times> crypto_aes_ctx) \<times> 'w"
  aes_encrypt :: "crypto_aes_ctx \<Rightarrow> u8 list \<Rightarrow> 'w \<Rightarrow> u8 list \<times> 'w"
  aes_decrypt :: "crypto_aes_ctx \<Rightarrow> u8 list \<Rightarrow> 'w \<Rightarrow> u8 list \<times> 'w"
  sha256 :: "u8 list \<Rightarrow> 'w \<Rightarrow> u8 list \<times> 'w"

text \<open>
  \<^verbatim>\<open>crypto_cipher_encrypt_one(tfm, block, block)\<close> and its inverse: the cipher reads one
  block of its block size at \<open>block\<close> and writes one block there.
\<close>

definition cipher_one ::
  "string \<Rightarrow> ('h \<Rightarrow> u8 list \<Rightarrow> 'w \<Rightarrow> u8 list \<times> 'w) \<Rightarrow> ('w, 'h) cipher_api \<Rightarrow> 'h \<Rightarrow> u8 list
   \<Rightarrow> 'w kstate \<Rightarrow> (u8 list \<times> 'w kstate) option" where
  "cipher_one name f C tfm block s = do {
     let n = unat (crypto_cipher_blocksize C tfm);
     src \<leftarrow> read_bytes block n;
     let (dst, s) = call name [Bytes src] (f tfm src) s;
     block \<leftarrow> write_bytes block (fit n dst);
     Some (block, s)
   }"

text \<open>The label \<^verbatim>\<open>out\<close> of \<^verbatim>\<open>fips_test_blockcipher\<close>.\<close>

definition blockcipher_out ::
  "('w, 'h) cipher_api \<Rightarrow> 'h \<Rightarrow> int \<Rightarrow> 'w kstate \<Rightarrow> (int \<times> 'w kstate) option" where
  "blockcipher_out C tfm err s =
     Some (err, call_void ''crypto_free_cipher'' [] (crypto_free_cipher C tfm) s)"

definition fips_test_blockcipher ::
  "'w mem_api \<Rightarrow> ('w, 'h) cipher_api \<Rightarrow> config \<Rightarrow> fips_test \<Rightarrow> 'w kstate
   \<Rightarrow> (int \<times> 'w kstate) option" where
  "fips_test_blockcipher M C cfg test s = do {
     vec \<leftarrow> test_blockcipher test;
     let block = local_array M MAX_CIPHER_BLOCKSIZE s;
     if unat (bc_block_size vec) > MAX_CIPHER_BLOCKSIZE then Some (- EINVAL, emit Warn s)
     else do {
       let (tfm, s) = call ''crypto_alloc_cipher'' [Str (alg test)]
                        (crypto_alloc_cipher C (alg test)) s;
       if IS_ERR tfm
       then Some (PTR_ERR tfm,
                  pr_err ''failed to allocate %s tfm: %d'' [Str (alg test), Num (PTR_ERR tfm)] s)
       else do {
         tfm \<leftarrow> deref tfm;
         let (err, s) = fips_validate_alg (crypto_cipher_alg C tfm) s;
         if err \<noteq> 0 then blockcipher_out C tfm err s
         else if ucast (crypto_cipher_blocksize C tfm) \<noteq> bc_block_size vec
         then blockcipher_out C tfm (- EINVAL)
                (pr_err ''%s has wrong block size'' [Str (alg test)] s)
         else do {
           key \<leftarrow> read_ptr (bc_key vec) (unat (bc_key_size vec));
           let (err, s) = call ''crypto_cipher_setkey'' [Bytes key]
                            (crypto_cipher_setkey C tfm key) s;
           if err \<noteq> 0
           then blockcipher_out C tfm err
                  (pr_err ''failed to set %s key: %d'' [Str (alg test), Num err] s)
           else do {
             block \<leftarrow> memcpy block (bc_plaintext vec) (unat (bc_block_size vec));
             (block, s) \<leftarrow> cipher_one ''crypto_cipher_encrypt_one''
                              (crypto_cipher_encrypt_one C) C tfm block s;
             (err, block, s) \<leftarrow> fips_check_result cfg test block (bc_ciphertext vec)
                                   (bc_block_size vec) ''encryption'' s;
             if err \<noteq> 0 then blockcipher_out C tfm err s
             else do {
               (block, s) \<leftarrow> cipher_one ''crypto_cipher_decrypt_one''
                                (crypto_cipher_decrypt_one C) C tfm block s;
               (err, block, s) \<leftarrow> fips_check_result cfg test block (bc_plaintext vec)
                                     (bc_block_size vec) ''decryption'' s;
               blockcipher_out C tfm err s
             }
           }
         }
       }
     }
   }"

text \<open>
  \<^verbatim>\<open>aes_encrypt(&ctx, block, vec->plaintext)\<close> and \<^verbatim>\<open>aes_decrypt(&ctx, block, block)\<close>
  read and write \<^verbatim>\<open>AES_BLOCK_SIZE\<close> bytes.
\<close>

definition fips_test_aes ::
  "'w mem_api \<Rightarrow> ('w, 'h) cipher_api \<Rightarrow> 'w lib_api \<Rightarrow> config \<Rightarrow> fips_test \<Rightarrow> 'w kstate
   \<Rightarrow> (int \<times> 'w kstate) option" where
  "fips_test_aes M C L cfg test s = do {
     vec \<leftarrow> test_blockcipher test;
     let block = local_array M AES_BLOCK_SIZE s;
     if unat (bc_block_size vec) \<noteq> AES_BLOCK_SIZE then Some (- EINVAL, emit Warn s)
     else do {
       (err, s) \<leftarrow> fips_test_blockcipher M C cfg test s;
       if err \<noteq> 0 then Some (err, s)
       else do {
         key \<leftarrow> read_ptr (bc_key vec) (unat (bc_key_size vec));
         let ((err, ctx), s) = call ''aes_expandkey'' [Bytes key] (aes_expandkey L key) s;
         if err \<noteq> 0 then Some (err, pr_err ''aes_expandkey() failed: %d'' [Num err] s)
         else do {
           src \<leftarrow> read_ptr (bc_plaintext vec) AES_BLOCK_SIZE;
           let (dst, s) = call ''aes_encrypt'' [Bytes src] (aes_encrypt L ctx src) s;
           block \<leftarrow> write_bytes block (fit AES_BLOCK_SIZE dst);
           (err, block, s) \<leftarrow> fips_check_result cfg test block (bc_ciphertext vec)
                                 (of_nat AES_BLOCK_SIZE) ''encryption (library API)'' s;
           if err \<noteq> 0 then Some (err, s)
           else do {
             src \<leftarrow> read_bytes block AES_BLOCK_SIZE;
             let (dst, s) = call ''aes_decrypt'' [Bytes src] (aes_decrypt L ctx src) s;
             block \<leftarrow> write_bytes block (fit AES_BLOCK_SIZE dst);
             (err, block, s) \<leftarrow> fips_check_result cfg test block (bc_plaintext vec)
                                   (of_nat AES_BLOCK_SIZE) ''decryption (library API)'' s;
             Some (err, s)
           }
         }
       }
     }
   }"

subsection \<open>Length-preserving ciphers: the crypto_skcipher API\<close>

text \<open>
  A request allocation returns whether it succeeded (\<open>False\<close> is \<^verbatim>\<open>NULL\<close>). An
  encryption or decryption takes the bytes of the IV and of the message and returns the
  error code and the bytes it leaves in both.
\<close>

record ('w, 'h) skcipher_api =
  crypto_alloc_skcipher :: "string \<Rightarrow> 'w \<Rightarrow> 'h ptr \<times> 'w"
  crypto_skcipher_alg :: "'h \<Rightarrow> crypto_alg"
  crypto_skcipher_ivsize :: "'h \<Rightarrow> u32"
  skcipher_request_alloc :: "'h \<Rightarrow> 'w \<Rightarrow> bool \<times> 'w"
  crypto_skcipher_setkey :: "'h \<Rightarrow> u8 list \<Rightarrow> 'w \<Rightarrow> int \<times> 'w"
  crypto_skcipher_encrypt :: "'h \<Rightarrow> u8 list \<Rightarrow> u8 list \<Rightarrow> 'w \<Rightarrow> (int \<times> u8 list \<times> u8 list) \<times> 'w"
  crypto_skcipher_decrypt :: "'h \<Rightarrow> u8 list \<Rightarrow> u8 list \<Rightarrow> 'w \<Rightarrow> (int \<times> u8 list \<times> u8 list) \<times> 'w"
  skcipher_request_free :: "'w \<Rightarrow> 'w"
  crypto_free_skcipher :: "'h \<Rightarrow> 'w \<Rightarrow> 'w"

text \<open>
  \<^verbatim>\<open>crypto_skcipher_encrypt(req)\<close> and its inverse, for the request the driver set up:
  source and destination are the \<open>cryptlen\<close> bytes of \<open>message\<close>, the IV is the local
  array \<open>iv\<close>, of which the cipher uses its IV size.
\<close>

definition skcipher_crypt ::
  "string \<Rightarrow> ('h \<Rightarrow> u8 list \<Rightarrow> u8 list \<Rightarrow> 'w \<Rightarrow> (int \<times> u8 list \<times> u8 list) \<times> 'w)
   \<Rightarrow> ('w, 'h) skcipher_api \<Rightarrow> 'h \<Rightarrow> nat \<Rightarrow> u8 list \<Rightarrow> u8 list \<Rightarrow> 'w kstate
   \<Rightarrow> (int \<times> u8 list \<times> u8 list \<times> 'w kstate) option" where
  "skcipher_crypt name f K tfm cryptlen iv message s = do {
     ivb \<leftarrow> read_bytes iv (unat (crypto_skcipher_ivsize K tfm));
     src \<leftarrow> read_bytes message cryptlen;
     let ((err, iv', dst), s) = call name [Bytes ivb, Bytes src] (f tfm ivb src) s;
     iv \<leftarrow> write_bytes iv (fit (length ivb) iv');
     message \<leftarrow> write_bytes message (fit cryptlen dst);
     Some (err, iv, message, s)
   }"

text \<open>
  The label \<^verbatim>\<open>out\<close> of \<^verbatim>\<open>fips_test_skcipher\<close>; \<open>req\<close> and \<open>message\<close> are the values of
  the two pointers there.
\<close>

definition skcipher_out ::
  "'w mem_api \<Rightarrow> ('w, 'h) skcipher_api \<Rightarrow> 'h \<Rightarrow> bool \<Rightarrow> u8 list option \<Rightarrow> int \<Rightarrow> 'w kstate
   \<Rightarrow> (int \<times> 'w kstate) option" where
  "skcipher_out M K tfm req message err s =
     (let s = kfree M message s;
          s = call_void ''skcipher_request_free'' []
                (if req then skcipher_request_free K else id) s;
          s = call_void ''crypto_free_skcipher'' [] (crypto_free_skcipher K tfm) s
      in Some (err, s))"

definition fips_test_skcipher ::
  "'w mem_api \<Rightarrow> ('w, 'h) skcipher_api \<Rightarrow> config \<Rightarrow> fips_test \<Rightarrow> 'w kstate
   \<Rightarrow> (int \<times> 'w kstate) option" where
  "fips_test_skcipher M K cfg test s = do {
     vec \<leftarrow> test_skcipher test;
     let iv = local_array M MAX_IV_SIZE s;
     if unat (sk_iv_size vec) > MAX_IV_SIZE then Some (- EINVAL, emit Warn s)
     else do {
       let (tfm, s) = call ''crypto_alloc_skcipher'' [Str (alg test)]
                        (crypto_alloc_skcipher K (alg test)) s;
       if IS_ERR tfm
       then Some (PTR_ERR tfm,
                  pr_err ''failed to allocate %s tfm: %d'' [Str (alg test), Num (PTR_ERR tfm)] s)
       else do {
         tfm \<leftarrow> deref tfm;
         let (err, s) = fips_validate_alg (crypto_skcipher_alg K tfm) s;
         if err \<noteq> 0 then skcipher_out M K tfm False None err s
         else if ucast (crypto_skcipher_ivsize K tfm) \<noteq> sk_iv_size vec
         then skcipher_out M K tfm False None (- EINVAL)
                (pr_err ''%s has wrong IV size'' [Str (alg test)] s)
         else do {
           let (req, s) = call ''skcipher_request_alloc'' [] (skcipher_request_alloc K tfm) s;
           (message, s) \<leftarrow> kmemdup M (sk_plaintext vec) (unat (sk_message_size vec)) s;
           case message of
             None \<Rightarrow> skcipher_out M K tfm req message (- ENOMEM) s
           | Some buf \<Rightarrow>
               if \<not> req then skcipher_out M K tfm req message (- ENOMEM) s
               else do {
                 key \<leftarrow> read_ptr (sk_key vec) (unat (sk_key_size vec));
                 let (err, s) = call ''crypto_skcipher_setkey'' [Bytes key]
                                  (crypto_skcipher_setkey K tfm key) s;
                 if err \<noteq> 0
                 then skcipher_out M K tfm req message err
                        (pr_err ''failed to set %s key: %d'' [Str (alg test), Num err] s)
                 else do {
                   iv \<leftarrow> memcpy iv (sk_iv vec) (unat (sk_iv_size vec));
                   (err, iv, buf, s) \<leftarrow> skcipher_crypt ''crypto_skcipher_encrypt''
                                          (crypto_skcipher_encrypt K) K tfm
                                          (unat (sk_message_size vec)) iv buf s;
                   if err \<noteq> 0
                   then skcipher_out M K tfm req (Some buf) err
                          (pr_err ''%s encryption failed: %d'' [Str (alg test), Num err] s)
                   else do {
                     (err, buf, s) \<leftarrow> fips_check_result cfg test buf (sk_ciphertext vec)
                                         (sk_message_size vec) ''encryption'' s;
                     if err \<noteq> 0 then skcipher_out M K tfm req (Some buf) err s
                     else do {
                       iv \<leftarrow> memcpy iv (sk_iv vec) (unat (sk_iv_size vec));
                       (err, iv, buf, s) \<leftarrow> skcipher_crypt ''crypto_skcipher_decrypt''
                                              (crypto_skcipher_decrypt K) K tfm
                                              (unat (sk_message_size vec)) iv buf s;
                       if err \<noteq> 0
                       then skcipher_out M K tfm req (Some buf) err
                              (pr_err ''%s decryption failed: %d'' [Str (alg test), Num err] s)
                       else do {
                         (err, buf, s) \<leftarrow> fips_check_result cfg test buf (sk_plaintext vec)
                                             (sk_message_size vec) ''decryption'' s;
                         skcipher_out M K tfm req (Some buf) err s
                       }
                     }
                   }
                 }
               }
         }
       }
     }
   }"

subsection \<open>AEAD: the crypto_aead API\<close>

text \<open>
  An encryption or decryption takes the bytes of the IV, of the associated data and of
  the message, and returns the error code and the bytes it leaves in the IV and in the
  message.
\<close>

record ('w, 'h) aead_api =
  crypto_alloc_aead :: "string \<Rightarrow> 'w \<Rightarrow> 'h ptr \<times> 'w"
  crypto_aead_alg :: "'h \<Rightarrow> crypto_alg"
  crypto_aead_ivsize :: "'h \<Rightarrow> u32"
  aead_request_alloc :: "'h \<Rightarrow> 'w \<Rightarrow> bool \<times> 'w"
  crypto_aead_setkey :: "'h \<Rightarrow> u8 list \<Rightarrow> 'w \<Rightarrow> int \<times> 'w"
  crypto_aead_setauthsize :: "'h \<Rightarrow> u32 \<Rightarrow> 'w \<Rightarrow> int \<times> 'w"
  crypto_aead_encrypt ::
    "'h \<Rightarrow> u8 list \<Rightarrow> u8 list \<Rightarrow> u8 list \<Rightarrow> 'w \<Rightarrow> (int \<times> u8 list \<times> u8 list) \<times> 'w"
  crypto_aead_decrypt ::
    "'h \<Rightarrow> u8 list \<Rightarrow> u8 list \<Rightarrow> u8 list \<Rightarrow> 'w \<Rightarrow> (int \<times> u8 list \<times> u8 list) \<times> 'w"
  aead_request_free :: "'w \<Rightarrow> 'w"
  crypto_free_aead :: "'h \<Rightarrow> 'w \<Rightarrow> 'w"

text \<open>
  \<^verbatim>\<open>crypto_aead_encrypt(req)\<close> and \<^verbatim>\<open>crypto_aead_decrypt(req)\<close>, for the request the driver
  set up: the scatterlist holds the \<open>assoclen\<close> bytes of \<open>assoc\<close> (when there are any)
  and then \<open>message\<close>; the operation reads \<open>cryptlen\<close> bytes of \<open>message\<close> and writes
  \<open>outlen\<close> bytes there (\<open>cryptlen\<close> plus the tag size when encrypting, minus the tag
  size when decrypting).
\<close>

definition aead_crypt ::
  "string \<Rightarrow> ('h \<Rightarrow> u8 list \<Rightarrow> u8 list \<Rightarrow> u8 list \<Rightarrow> 'w \<Rightarrow> (int \<times> u8 list \<times> u8 list) \<times> 'w)
   \<Rightarrow> ('w, 'h) aead_api \<Rightarrow> 'h \<Rightarrow> nat \<Rightarrow> nat \<Rightarrow> nat \<Rightarrow> u8 list \<Rightarrow> u8 list \<Rightarrow> u8 list
   \<Rightarrow> 'w kstate \<Rightarrow> (int \<times> u8 list \<times> u8 list \<times> 'w kstate) option" where
  "aead_crypt name f A tfm assoclen cryptlen outlen iv assoc message s = do {
     ivb \<leftarrow> read_bytes iv (unat (crypto_aead_ivsize A tfm));
     ad \<leftarrow> read_bytes assoc assoclen;
     src \<leftarrow> read_bytes message cryptlen;
     let ((err, iv', dst), s) = call name [Bytes ivb, Bytes ad, Bytes src] (f tfm ivb ad src) s;
     iv \<leftarrow> write_bytes iv (fit (length ivb) iv');
     message \<leftarrow> write_bytes message (fit outlen dst);
     Some (err, iv, message, s)
   }"

text \<open>The label \<^verbatim>\<open>out\<close> of \<^verbatim>\<open>fips_test_aead\<close>.\<close>

definition aead_out ::
  "'w mem_api \<Rightarrow> ('w, 'h) aead_api \<Rightarrow> 'h \<Rightarrow> bool \<Rightarrow> u8 list option \<Rightarrow> u8 list option \<Rightarrow> int
   \<Rightarrow> 'w kstate \<Rightarrow> (int \<times> 'w kstate) option" where
  "aead_out M A tfm req assoc message err s =
     (let s = kfree M message s;
          s = kfree M assoc s;
          s = call_void ''aead_request_free'' [] (if req then aead_request_free A else id) s;
          s = call_void ''crypto_free_aead'' [] (crypto_free_aead A tfm) s
      in Some (err, s))"

text \<open>
  \<^verbatim>\<open>const int tag_size = vec->ciphertext_size - vec->plaintext_size\<close>: the difference
  of two \<^verbatim>\<open>size_t\<close> wraps around, the conversion to \<^verbatim>\<open>int\<close> keeps its low 32 bits, and
  the parameter of \<^verbatim>\<open>crypto_aead_setauthsize\<close> is an \<^verbatim>\<open>unsigned int\<close> of the same bits.
\<close>

definition aead_tag_size :: "aead_testvec \<Rightarrow> u32" where
  "aead_tag_size vec = ucast (aead_ciphertext_size vec - aead_plaintext_size vec)"

definition fips_test_aead ::
  "'w mem_api \<Rightarrow> ('w, 'h) aead_api \<Rightarrow> config \<Rightarrow> fips_test \<Rightarrow> 'w kstate
   \<Rightarrow> (int \<times> 'w kstate) option" where
  "fips_test_aead M A cfg test s = do {
     vec \<leftarrow> test_aead test;
     let tag_size = aead_tag_size vec;
     let iv = local_array M MAX_IV_SIZE s;
     if unat (aead_iv_size vec) > MAX_IV_SIZE then Some (- EINVAL, emit Warn s)
     else if aead_ciphertext_size vec \<le> aead_plaintext_size vec then Some (- EINVAL, emit Warn s)
     else do {
       let (tfm, s) = call ''crypto_alloc_aead'' [Str (alg test)]
                        (crypto_alloc_aead A (alg test)) s;
       if IS_ERR tfm
       then Some (PTR_ERR tfm,
                  pr_err ''failed to allocate %s tfm: %d'' [Str (alg test), Num (PTR_ERR tfm)] s)
       else do {
         tfm \<leftarrow> deref tfm;
         let (err, s) = fips_validate_alg (crypto_aead_alg A tfm) s;
         if err \<noteq> 0 then aead_out M A tfm False None None err s
         else if ucast (crypto_aead_ivsize A tfm) \<noteq> aead_iv_size vec
         then aead_out M A tfm False None None (- EINVAL)
                (pr_err ''%s has wrong IV size'' [Str (alg test)] s)
         else do {
           let (req, s) = call ''aead_request_alloc'' [] (aead_request_alloc A tfm) s;
           (assoc, s) \<leftarrow> kmemdup M (aead_assoc vec) (unat (aead_assoc_size vec)) s;
           let (message, s) = kzalloc M (unat (aead_ciphertext_size vec)) s;
           case (assoc, message) of
             (Some ad, Some buf) \<Rightarrow>
               if \<not> req then aead_out M A tfm req assoc message (- ENOMEM) s
               else do {
                 buf \<leftarrow> memcpy buf (aead_plaintext vec) (unat (aead_plaintext_size vec));
                 key \<leftarrow> read_ptr (aead_key vec) (unat (aead_key_size vec));
                 let (err, s) = call ''crypto_aead_setkey'' [Bytes key]
                                  (crypto_aead_setkey A tfm key) s;
                 if err \<noteq> 0
                 then aead_out M A tfm req assoc (Some buf) err
                        (pr_err ''failed to set %s key: %d'' [Str (alg test), Num err] s)
                 else do {
                   let (err, s) = call ''crypto_aead_setauthsize'' [Num (uint tag_size)]
                                    (crypto_aead_setauthsize A tfm tag_size) s;
                   if err \<noteq> 0
                   then aead_out M A tfm req assoc (Some buf) err
                          (pr_err ''failed to set %s authentication tag size: %d''
                             [Str (alg test), Num err] s)
                   else do {
                     iv \<leftarrow> memcpy iv (aead_iv vec) (unat (aead_iv_size vec));
                     (err, iv, buf, s) \<leftarrow>
                        aead_crypt ''crypto_aead_encrypt'' (crypto_aead_encrypt A) A tfm
                          (unat (aead_assoc_size vec)) (unat (aead_plaintext_size vec))
                          (unat (aead_plaintext_size vec) + unat tag_size) iv ad buf s;
                     if err \<noteq> 0
                     then aead_out M A tfm req assoc (Some buf) err
                            (pr_err ''%s encryption failed: %d'' [Str (alg test), Num err] s)
                     else do {
                       (err, buf, s) \<leftarrow> fips_check_result cfg test buf (aead_ciphertext vec)
                                           (aead_ciphertext_size vec) ''encryption'' s;
                       if err \<noteq> 0 then aead_out M A tfm req assoc (Some buf) err s
                       else do {
                         iv \<leftarrow> memcpy iv (aead_iv vec) (unat (aead_iv_size vec));
                         (err, iv, buf, s) \<leftarrow>
                            aead_crypt ''crypto_aead_decrypt'' (crypto_aead_decrypt A) A tfm
                              (unat (aead_assoc_size vec)) (unat (aead_ciphertext_size vec))
                              (unat (aead_ciphertext_size vec) - unat tag_size) iv ad buf s;
                         if err \<noteq> 0
                         then aead_out M A tfm req assoc (Some buf) err
                                (pr_err ''%s decryption failed: %d'' [Str (alg test), Num err] s)
                         else do {
                           (err, buf, s) \<leftarrow> fips_check_result cfg test buf (aead_plaintext vec)
                                               (aead_plaintext_size vec) ''decryption'' s;
                           aead_out M A tfm req assoc (Some buf) err s
                         }
                       }
                     }
                   }
                 }
               }
           | _ \<Rightarrow> aead_out M A tfm req assoc message (- ENOMEM) s
         }
       }
     }
   }"

subsection \<open>Hashes: the crypto_shash API and the SHA-256 library\<close>

record ('w, 'h) shash_api =
  crypto_alloc_shash :: "string \<Rightarrow> 'w \<Rightarrow> 'h ptr \<times> 'w"
  crypto_shash_alg :: "'h \<Rightarrow> crypto_alg"
  crypto_shash_digestsize :: "'h \<Rightarrow> u32"
  crypto_shash_setkey :: "'h \<Rightarrow> u8 list \<Rightarrow> 'w \<Rightarrow> int \<times> 'w"
  crypto_shash_tfm_digest :: "'h \<Rightarrow> u8 list \<Rightarrow> 'w \<Rightarrow> (int \<times> u8 list) \<times> 'w"
  crypto_free_shash :: "'h \<Rightarrow> 'w \<Rightarrow> 'w"

text \<open>The label \<^verbatim>\<open>out\<close> of \<^verbatim>\<open>fips_test_hash\<close>.\<close>

definition hash_out ::
  "('w, 'h) shash_api \<Rightarrow> 'h \<Rightarrow> int \<Rightarrow> 'w kstate \<Rightarrow> (int \<times> 'w kstate) option" where
  "hash_out H tfm err s =
     Some (err, call_void ''crypto_free_shash'' [] (crypto_free_shash H tfm) s)"

text \<open>
  \<^verbatim>\<open>crypto_shash_tfm_digest(tfm, vec->message, vec->message_size, digest)\<close> writes
  as many bytes as the digest size of the instance.
\<close>

definition fips_test_hash ::
  "'w mem_api \<Rightarrow> ('w, 'h) shash_api \<Rightarrow> config \<Rightarrow> fips_test \<Rightarrow> 'w kstate
   \<Rightarrow> (int \<times> 'w kstate) option" where
  "fips_test_hash M H cfg test s = do {
     vec \<leftarrow> test_hash test;
     let digest = local_array M HASH_MAX_DIGESTSIZE s;
     if unat (hash_digest_size vec) > HASH_MAX_DIGESTSIZE then Some (- EINVAL, emit Warn s)
     else do {
       let (tfm, s) = call ''crypto_alloc_shash'' [Str (alg test)]
                        (crypto_alloc_shash H (alg test)) s;
       if IS_ERR tfm
       then Some (PTR_ERR tfm,
                  pr_err ''failed to allocate %s tfm: %d'' [Str (alg test), Num (PTR_ERR tfm)] s)
       else do {
         tfm \<leftarrow> deref tfm;
         let (err, s) = fips_validate_alg (crypto_shash_alg H tfm) s;
         if err \<noteq> 0 then hash_out H tfm err s
         else if ucast (crypto_shash_digestsize H tfm) \<noteq> hash_digest_size vec
         then hash_out H tfm (- EINVAL)
                (pr_err ''%s has wrong digest size'' [Str (alg test)] s)
         else do {
           (err, s) \<leftarrow>
             (if hash_key vec \<noteq> None
              then do {
                key \<leftarrow> read_ptr (hash_key vec) (unat (hash_key_size vec));
                let (err, s) = call ''crypto_shash_setkey'' [Bytes key]
                                 (crypto_shash_setkey H tfm key) s;
                Some (err, if err \<noteq> 0
                           then pr_err ''failed to set %s key: %d'' [Str (alg test), Num err] s
                           else s)
              }
              else Some (0, s));
           if err \<noteq> 0 then hash_out H tfm err s
           else do {
             message \<leftarrow> read_ptr (hash_message vec) (unat (hash_message_size vec));
             let n = unat (crypto_shash_digestsize H tfm);
             let ((err, dst), s) = call ''crypto_shash_tfm_digest'' [Bytes message]
                                     (crypto_shash_tfm_digest H tfm message) s;
             digest \<leftarrow> write_bytes digest (fit n dst);
             if err \<noteq> 0
             then hash_out H tfm err
                    (pr_err ''%s digest computation failed: %d'' [Str (alg test), Num err] s)
             else do {
               (err, digest, s) \<leftarrow> fips_check_result cfg test digest (hash_digest vec)
                                      (hash_digest_size vec) ''digest'' s;
               hash_out H tfm err s
             }
           }
         }
       }
     }
   }"

text \<open>\<^verbatim>\<open>sha256(vec->message, vec->message_size, digest)\<close> writes \<^verbatim>\<open>SHA256_DIGEST_SIZE\<close> bytes.\<close>

definition fips_test_sha256_library ::
  "'w mem_api \<Rightarrow> 'w lib_api \<Rightarrow> config \<Rightarrow> fips_test \<Rightarrow> 'w kstate
   \<Rightarrow> (int \<times> 'w kstate) option" where
  "fips_test_sha256_library M L cfg test s = do {
     vec \<leftarrow> test_hash test;
     let digest = local_array M SHA256_DIGEST_SIZE s;
     if unat (hash_digest_size vec) \<noteq> SHA256_DIGEST_SIZE then Some (- EINVAL, emit Warn s)
     else do {
       message \<leftarrow> read_ptr (hash_message vec) (unat (hash_message_size vec));
       let (dst, s) = call ''sha256'' [Bytes message] (sha256 L message) s;
       digest \<leftarrow> write_bytes digest (fit SHA256_DIGEST_SIZE dst);
       (err, digest, s) \<leftarrow> fips_check_result cfg test digest (hash_digest vec)
                              (hash_digest_size vec) ''digest (library API)'' s;
       Some (err, s)
     }
   }"

subsection \<open>DRBGs: the crypto_rng API\<close>

text \<open>
  The reset takes the personalization string and the test entropy; a generation takes
  the number of bytes, the additional data and (the test variant) the test entropy, and
  returns the error code and the bytes it leaves in the output buffer.
\<close>

record ('w, 'h) rng_api =
  crypto_alloc_rng :: "string \<Rightarrow> 'w \<Rightarrow> 'h ptr \<times> 'w"
  crypto_rng_alg :: "'h \<Rightarrow> crypto_alg"
  crypto_drbg_reset_test :: "'h \<Rightarrow> u8 list \<Rightarrow> u8 list \<Rightarrow> 'w \<Rightarrow> int \<times> 'w"
  crypto_drbg_get_bytes_addtl_test ::
    "'h \<Rightarrow> nat \<Rightarrow> u8 list \<Rightarrow> u8 list \<Rightarrow> 'w \<Rightarrow> (int \<times> u8 list) \<times> 'w"
  crypto_drbg_get_bytes_addtl :: "'h \<Rightarrow> nat \<Rightarrow> u8 list \<Rightarrow> 'w \<Rightarrow> (int \<times> u8 list) \<times> 'w"
  crypto_free_rng :: "'h \<Rightarrow> 'w \<Rightarrow> 'w"

text \<open>The label \<^verbatim>\<open>out\<close> of \<^verbatim>\<open>fips_test_drbg\<close>.\<close>

definition drbg_out ::
  "'w mem_api \<Rightarrow> ('w, 'h) rng_api \<Rightarrow> 'h \<Rightarrow> u8 list option \<Rightarrow> int \<Rightarrow> 'w kstate
   \<Rightarrow> (int \<times> 'w kstate) option" where
  "drbg_out M R rng output err s =
     (let s = kfree M output s;
          s = call_void ''crypto_free_rng'' [] (crypto_free_rng R rng) s
      in Some (err, s))"

text \<open>
  One generation into \<open>output\<close>: \<^verbatim>\<open>crypto_drbg_get_bytes_addtl_test\<close> with the test
  entropy at \<open>entpr\<close> when \<^verbatim>\<open>entpr_size\<close> is not zero, \<^verbatim>\<open>crypto_drbg_get_bytes_addtl\<close>
  otherwise. The strings are read when the generator uses them.
\<close>

definition drbg_generate ::
  "('w, 'h) rng_api \<Rightarrow> 'h \<Rightarrow> drbg_testvec \<Rightarrow> u8 list option \<Rightarrow> u8 list option \<Rightarrow> u8 list
   \<Rightarrow> 'w kstate \<Rightarrow> (int \<times> u8 list \<times> 'w kstate) option" where
  "drbg_generate R rng vec add entpr output s = do {
     let n = unat (drbg_out_size vec);
     addtl \<leftarrow> read_ptr add (unat (drbg_add_size vec));
     ((err, dst), s) \<leftarrow>
       (if drbg_entpr_size vec \<noteq> 0
        then do {
          testentropy \<leftarrow> read_ptr entpr (unat (drbg_entpr_size vec));
          Some (call ''crypto_drbg_get_bytes_addtl_test'' [Num (int n), Bytes addtl, Bytes testentropy]
                  (crypto_drbg_get_bytes_addtl_test R rng n addtl testentropy) s)
        }
        else Some (call ''crypto_drbg_get_bytes_addtl'' [Num (int n), Bytes addtl]
                     (crypto_drbg_get_bytes_addtl R rng n addtl) s));
     output \<leftarrow> write_bytes output (fit n dst);
     Some (err, output, s)
   }"

definition fips_test_drbg ::
  "'w mem_api \<Rightarrow> ('w, 'h) rng_api \<Rightarrow> config \<Rightarrow> fips_test \<Rightarrow> 'w kstate
   \<Rightarrow> (int \<times> 'w kstate) option" where
  "fips_test_drbg M R cfg test s = do {
     vec \<leftarrow> test_drbg test;
     let (rng, s) = call ''crypto_alloc_rng'' [Str (alg test)] (crypto_alloc_rng R (alg test)) s;
     if IS_ERR rng
     then Some (PTR_ERR rng,
                pr_err ''failed to allocate %s tfm: %d'' [Str (alg test), Num (PTR_ERR rng)] s)
     else do {
       rng \<leftarrow> deref rng;
       let (err, s) = fips_validate_alg (crypto_rng_alg R rng) s;
       if err \<noteq> 0 then drbg_out M R rng None err s
       else do {
         let (output, s) = kzalloc M (unat (drbg_out_size vec)) s;
         case output of
           None \<Rightarrow> drbg_out M R rng None (- ENOMEM) s
         | Some buf \<Rightarrow> do {
             testentropy \<leftarrow> read_ptr (drbg_entropy vec) (unat (drbg_entropy_size vec));
             pers \<leftarrow> read_ptr (drbg_pers vec) (unat (drbg_pers_size vec));
             let (err, s) = call ''crypto_drbg_reset_test'' [Bytes pers, Bytes testentropy]
                              (crypto_drbg_reset_test R rng pers testentropy) s;
             if err \<noteq> 0
             then drbg_out M R rng output err (pr_err ''failed to reset %s'' [Str (alg test)] s)
             else do {
               (err, buf, s) \<leftarrow> drbg_generate R rng vec (drbg_add_a vec) (drbg_entpr_a vec) buf s;
               if err \<noteq> 0
               then drbg_out M R rng (Some buf) err
                      (pr_err ''failed to get bytes from %s (try 1): %d''
                         [Str (alg test), Num err] s)
               else do {
                 (err, buf, s) \<leftarrow> drbg_generate R rng vec (drbg_add_b vec) (drbg_entpr_b vec) buf s;
                 if err \<noteq> 0
                 then drbg_out M R rng (Some buf) err
                        (pr_err ''failed to get bytes from %s (try 2): %d''
                           [Str (alg test), Num err] s)
                 else do {
                   (err, buf, s) \<leftarrow> fips_check_result cfg test buf (drbg_output vec)
                                       (drbg_out_size vec) ''get_bytes'' s;
                   drbg_out M R rng (Some buf) err s
                 }
               }
             }
           }
       }
     }
   }"

subsection \<open>The list of self-tests\<close>

text \<open>
  The arrays of \<^verbatim>\<open>fips140-generated-testvecs.h\<close>, which a script generates and which
  is not part of the file: a parameter.
\<close>

record generated_testvecs =
  fips_message :: "u8 list"
  fips_aes_key :: "u8 list"
  fips_aes_iv :: "u8 list"
  fips_aes_cbc_ciphertext :: "u8 list"
  fips_aes_ctr_ciphertext :: "u8 list"
  fips_aes_ecb_ciphertext :: "u8 list"
  fips_aes_gcm_assoc :: "u8 list"
  fips_aes_gcm_ciphertext :: "u8 list"
  fips_aes_xts_key :: "u8 list"
  fips_aes_xts_ciphertext :: "u8 list"
  fips_sha1_digest :: "u8 list"
  fips_sha256_digest :: "u8 list"
  fips_hmac_key :: "u8 list"
  fips_hmac_sha256_digest :: "u8 list"
  fips_sha512_digest :: "u8 list"

text \<open>\<^verbatim>\<open>sizeof(a)\<close> for an array of bytes.\<close>

definition sizeof :: "u8 list \<Rightarrow> size_t" where
  "sizeof a = of_nat (length a)"

text \<open>
  The DRBG vectors are string literals in the file: the bytes, and the zero byte that
  ends a string literal.
\<close>

definition drbg_nopr_hmac_sha256_testvec :: drbg_testvec where
  "drbg_nopr_hmac_sha256_testvec = \<lparr>
     drbg_entropy = Some
       [0xF9, 0x7A, 0x3C, 0xFD, 0x91, 0xFA, 0xA0, 0x46, 0xB9, 0xE6, 0x1B, 0x94,
        0x93, 0xD4, 0x36, 0xC4, 0x93, 0x1F, 0x60, 0x4B, 0x22, 0xF1, 0x08, 0x15,
        0x21, 0xB3, 0x41, 0x91, 0x51, 0xE8, 0xFF, 0x06, 0x11, 0xF3, 0xA7, 0xD4,
        0x35, 0x95, 0x35, 0x7D, 0x58, 0x12, 0x0B, 0xD1, 0xE2, 0xDD, 0x8A, 0xED,
        0x00],
     drbg_entropy_size = 48,
     drbg_pers = None,
     drbg_pers_size = 0,
     drbg_entpr_a = None,
     drbg_entpr_b = None,
     drbg_entpr_size = 0,
     drbg_add_a = Some
       [0x51, 0x72, 0x89, 0xAF, 0xE4, 0x44, 0xA0, 0xFE, 0x5E, 0xD1, 0xA4, 0x1D,
        0xBB, 0xB5, 0xEB, 0x17, 0x15, 0x00, 0x79, 0xBD, 0xD3, 0x1E, 0x29, 0xCF,
        0x2F, 0xF3, 0x00, 0x34, 0xD8, 0x26, 0x8E, 0x3B, 0x00],
     drbg_add_b = Some
       [0x88, 0x02, 0x8D, 0x29, 0xEF, 0x80, 0xB4, 0xE6, 0xF0, 0xFE, 0x12, 0xF9,
        0x1D, 0x74, 0x49, 0xFE, 0x75, 0x06, 0x26, 0x82, 0xE8, 0x9C, 0x57, 0x14,
        0x40, 0xC0, 0xC9, 0xB5, 0x2C, 0x42, 0xA6, 0xE0, 0x00],
     drbg_add_size = 32,
     drbg_output = Some
       [0xC6, 0x87, 0x1C, 0xFF, 0x08, 0x24, 0xFE, 0x55, 0xEA, 0x76, 0x89, 0xA5,
        0x22, 0x29, 0x88, 0x67, 0x30, 0x45, 0x0E, 0x5D, 0x36, 0x2D, 0xA5, 0xBF,
        0x59, 0x0D, 0xCF, 0x9A, 0xCD, 0x67, 0xFE, 0xD4, 0xCB, 0x32, 0x10, 0x7D,
        0xF5, 0xD0, 0x39, 0x69, 0xA6, 0x6B, 0x1F, 0x64, 0x94, 0xFD, 0xF5, 0xD6,
        0x3D, 0x5B, 0x4D, 0x0D, 0x34, 0xEA, 0x73, 0x99, 0xA0, 0x7D, 0x01, 0x16,
        0x12, 0x6D, 0x0D, 0x51, 0x8C, 0x7C, 0x55, 0xBA, 0x46, 0xE1, 0x2F, 0x62,
        0xEF, 0xC8, 0xFE, 0x28, 0xA5, 0x1C, 0x9D, 0x42, 0x8E, 0x6D, 0x37, 0x1D,
        0x73, 0x97, 0xAB, 0x31, 0x9F, 0xC7, 0x3D, 0xED, 0x47, 0x22, 0xE5, 0xB4,
        0xF3, 0x00, 0x04, 0x03, 0x2A, 0x61, 0x28, 0xDF, 0x5E, 0x74, 0x97, 0xEC,
        0xF8, 0x2C, 0xA7, 0xB0, 0xA5, 0x0E, 0x86, 0x7E, 0xF6, 0x72, 0x8A, 0x4F,
        0x50, 0x9A, 0x8C, 0x85, 0x90, 0x87, 0x03, 0x9C, 0x00],
     drbg_out_size = 128
   \<rparr>"

definition drbg_pr_hmac_sha256_testvec :: drbg_testvec where
  "drbg_pr_hmac_sha256_testvec = \<lparr>
     drbg_entropy = Some
       [0xC7, 0xCC, 0xBC, 0x67, 0x7E, 0x21, 0x66, 0x1E, 0x27, 0x2B, 0x63, 0xDD,
        0x3A, 0x78, 0xDC, 0xDF, 0x66, 0x6D, 0x3F, 0x24, 0xAE, 0xCF, 0x37, 0x01,
        0xA9, 0x0D, 0x89, 0x8A, 0xA7, 0xDC, 0x81, 0x58, 0xAE, 0xB2, 0x10, 0x15,
        0x7E, 0x18, 0x44, 0x6D, 0x13, 0xEA, 0xDF, 0x37, 0x85, 0xFE, 0x81, 0xFB,
        0x00],
     drbg_entropy_size = 48,
     drbg_pers = Some
       [0xBC, 0x55, 0xAB, 0x3C, 0xF6, 0x52, 0xB0, 0x11, 0x3D, 0x7B, 0x90, 0xB8,
        0x24, 0xC9, 0x26, 0x4E, 0x5A, 0x1E, 0x77, 0x0D, 0x3D, 0x58, 0x4A, 0xDA,
        0xD1, 0x81, 0xE9, 0xF8, 0xEB, 0x30, 0x8F, 0x6F, 0x00],
     drbg_pers_size = 32,
     drbg_entpr_a = Some
       [0x7B, 0xA1, 0x91, 0x5B, 0x3C, 0x04, 0xC4, 0x1B, 0x1D, 0x19, 0x2F, 0x1A,
        0x18, 0x81, 0x60, 0x3C, 0x6C, 0x62, 0x91, 0xB7, 0xE9, 0xF5, 0xCB, 0x96,
        0xBB, 0x81, 0x6A, 0xCC, 0xB5, 0xAE, 0x55, 0xB6, 0x00],
     drbg_entpr_b = Some
       [0x99, 0x2C, 0xC7, 0x78, 0x7E, 0x3B, 0x88, 0x12, 0xEF, 0xBE, 0xD3, 0xD2,
        0x7D, 0x2A, 0xA5, 0x86, 0xDA, 0x8D, 0x58, 0x73, 0x4A, 0x0A, 0xB2, 0x2E,
        0xBB, 0x4C, 0x7E, 0xE3, 0x9A, 0xB6, 0x81, 0xC1, 0x00],
     drbg_entpr_size = 32,
     drbg_add_a = Some
       [0x18, 0xE8, 0x17, 0xFF, 0xEF, 0x39, 0xC7, 0x41, 0x5C, 0x73, 0x03, 0x03,
        0xF6, 0x3D, 0xE8, 0x5F, 0xC8, 0xAB, 0xE4, 0xAB, 0x0F, 0xAD, 0xE8, 0xD6,
        0x86, 0x88, 0x55, 0x28, 0xC1, 0x69, 0xDD, 0x76, 0x00],
     drbg_add_b = Some
       [0xAC, 0x07, 0xFC, 0xBE, 0x87, 0x0E, 0xD3, 0xEA, 0x1F, 0x7E, 0xB8, 0xE7,
        0x9D, 0xEC, 0xE8, 0xE7, 0xBC, 0xF3, 0x18, 0x25, 0x77, 0x35, 0x4A, 0xAA,
        0x00, 0x99, 0x2A, 0xDD, 0x0A, 0x00, 0x50, 0x82, 0x00],
     drbg_add_size = 32,
     drbg_output = Some
       [0x95, 0x6F, 0x95, 0xFC, 0x3B, 0xB7, 0xFE, 0x3E, 0xD0, 0x4E, 0x1A, 0x14,
        0x6C, 0x34, 0x7F, 0x7B, 0x1D, 0x0D, 0x63, 0x5E, 0x48, 0x9C, 0x69, 0xE6,
        0x46, 0x07, 0xD2, 0x87, 0xF3, 0x86, 0x52, 0x3D, 0x98, 0x27, 0x5E, 0xD7,
        0x54, 0xE7, 0x75, 0x50, 0x4F, 0xFB, 0x4D, 0xFD, 0xAC, 0x2F, 0x4B, 0x77,
        0xCF, 0x9E, 0x8E, 0xCC, 0x16, 0xA2, 0x24, 0xCD, 0x53, 0xDE, 0x3E, 0xC5,
        0x55, 0x5D, 0xD5, 0x26, 0x3F, 0x89, 0xDF, 0xCA, 0x8B, 0x4E, 0x1E, 0xB6,
        0x88, 0x78, 0x63, 0x5C, 0xA2, 0x63, 0x98, 0x4E, 0x6F, 0x25, 0x59, 0xB1,
        0x5F, 0x2B, 0x23, 0xB0, 0x4B, 0xA5, 0x18, 0x5D, 0xC2, 0x15, 0x74, 0x40,
        0x59, 0x4C, 0xB4, 0x1E, 0xCF, 0x9A, 0x36, 0xFD, 0x43, 0xE2, 0x03, 0xB8,
        0x59, 0x91, 0x30, 0x89, 0x2A, 0xC8, 0x5A, 0x43, 0x23, 0x7C, 0x73, 0x72,
        0xDA, 0x3F, 0xAD, 0x2B, 0xBA, 0x00, 0x6B, 0xD1, 0x00],
     drbg_out_size = 128
   \<rparr>"

definition fips140_selftests :: "generated_testvecs \<Rightarrow> fips_test list" where
  "fips140_selftests V = [
     \<lparr>alg = ''aes'', func = Fips_test_aes, vector = Blockcipher \<lparr>
        bc_key = Some (fips_aes_key V),
        bc_key_size = sizeof (fips_aes_key V),
        bc_plaintext = Some (fips_message V),
        bc_ciphertext = Some (fips_aes_ecb_ciphertext V),
        bc_block_size = 16\<rparr>\<rparr>,
     \<lparr>alg = ''cbc(aes)'', func = Fips_test_skcipher, vector = Skcipher \<lparr>
        sk_key = Some (fips_aes_key V),
        sk_key_size = sizeof (fips_aes_key V),
        sk_iv = Some (fips_aes_iv V),
        sk_iv_size = sizeof (fips_aes_iv V),
        sk_plaintext = Some (fips_message V),
        sk_ciphertext = Some (fips_aes_cbc_ciphertext V),
        sk_message_size = sizeof (fips_message V)\<rparr>\<rparr>,
     \<lparr>alg = ''ctr(aes)'', func = Fips_test_skcipher, vector = Skcipher \<lparr>
        sk_key = Some (fips_aes_key V),
        sk_key_size = sizeof (fips_aes_key V),
        sk_iv = Some (fips_aes_iv V),
        sk_iv_size = sizeof (fips_aes_iv V),
        sk_plaintext = Some (fips_message V),
        sk_ciphertext = Some (fips_aes_ctr_ciphertext V),
        sk_message_size = sizeof (fips_message V)\<rparr>\<rparr>,
     \<lparr>alg = ''ecb(aes)'', func = Fips_test_skcipher, vector = Skcipher \<lparr>
        sk_key = Some (fips_aes_key V),
        sk_key_size = sizeof (fips_aes_key V),
        sk_iv = None,
        sk_iv_size = 0,
        sk_plaintext = Some (fips_message V),
        sk_ciphertext = Some (fips_aes_ecb_ciphertext V),
        sk_message_size = sizeof (fips_message V)\<rparr>\<rparr>,
     \<lparr>alg = ''gcm(aes)'', func = Fips_test_aead, vector = Aead \<lparr>
        aead_key = Some (fips_aes_key V),
        aead_key_size = sizeof (fips_aes_key V),
        aead_iv = Some (fips_aes_iv V),
        aead_iv_size = 12,
        aead_assoc = Some (fips_aes_gcm_assoc V),
        aead_assoc_size = sizeof (fips_aes_gcm_assoc V),
        aead_plaintext = Some (fips_message V),
        aead_plaintext_size = sizeof (fips_message V),
        aead_ciphertext = Some (fips_aes_gcm_ciphertext V),
        aead_ciphertext_size = sizeof (fips_aes_gcm_ciphertext V)\<rparr>\<rparr>,
     \<lparr>alg = ''xts(aes)'', func = Fips_test_skcipher, vector = Skcipher \<lparr>
        sk_key = Some (fips_aes_xts_key V),
        sk_key_size = sizeof (fips_aes_xts_key V),
        sk_iv = Some (fips_aes_iv V),
        sk_iv_size = sizeof (fips_aes_iv V),
        sk_plaintext = Some (fips_message V),
        sk_ciphertext = Some (fips_aes_xts_ciphertext V),
        sk_message_size = sizeof (fips_message V)\<rparr>\<rparr>,
     \<lparr>alg = ''sha1'', func = Fips_test_hash, vector = Hash \<lparr>
        hash_key = None,
        hash_key_size = 0,
        hash_message = Some (fips_message V),
        hash_message_size = sizeof (fips_message V),
        hash_digest = Some (fips_sha1_digest V),
        hash_digest_size = sizeof (fips_sha1_digest V)\<rparr>\<rparr>,
     \<lparr>alg = ''sha256'', func = Fips_test_sha256_library, vector = Hash \<lparr>
        hash_key = None,
        hash_key_size = 0,
        hash_message = Some (fips_message V),
        hash_message_size = sizeof (fips_message V),
        hash_digest = Some (fips_sha256_digest V),
        hash_digest_size = sizeof (fips_sha256_digest V)\<rparr>\<rparr>,
     \<lparr>alg = ''hmac(sha256)'', func = Fips_test_hash, vector = Hash \<lparr>
        hash_key = Some (fips_hmac_key V),
        hash_key_size = sizeof (fips_hmac_key V),
        hash_message = Some (fips_message V),
        hash_message_size = sizeof (fips_message V),
        hash_digest = Some (fips_hmac_sha256_digest V),
        hash_digest_size = sizeof (fips_hmac_sha256_digest V)\<rparr>\<rparr>,
     \<lparr>alg = ''sha512'', func = Fips_test_hash, vector = Hash \<lparr>
        hash_key = None,
        hash_key_size = 0,
        hash_message = Some (fips_message V),
        hash_message_size = sizeof (fips_message V),
        hash_digest = Some (fips_sha512_digest V),
        hash_digest_size = sizeof (fips_sha512_digest V)\<rparr>\<rparr>,
     \<lparr>alg = ''drbg_nopr_hmac_sha256'', func = Fips_test_drbg,
        vector = Drbg drbg_nopr_hmac_sha256_testvec\<rparr>,
     \<lparr>alg = ''drbg_pr_hmac_sha256'', func = Fips_test_drbg,
        vector = Drbg drbg_pr_hmac_sha256_testvec\<rparr>
   ]"

subsection \<open>Running the self-tests\<close>

text \<open>The kernel around the file.\<close>

record ('w, 'h) kernel =
  mem :: "'w mem_api"
  cipher :: "('w, 'h) cipher_api"
  lib :: "'w lib_api"
  skcipher :: "('w, 'h) skcipher_api"
  aead :: "('w, 'h) aead_api"
  shash :: "('w, 'h) shash_api"
  rng :: "('w, 'h) rng_api"

text \<open>\<^verbatim>\<open>test->func(test)\<close>\<close>

definition call_func ::
  "('w, 'h) kernel \<Rightarrow> config \<Rightarrow> fips_test \<Rightarrow> 'w kstate \<Rightarrow> (int \<times> 'w kstate) option" where
  "call_func P cfg test s =
     (case func test of
        Fips_test_blockcipher \<Rightarrow> fips_test_blockcipher (mem P) (cipher P) cfg test s
      | Fips_test_aes \<Rightarrow> fips_test_aes (mem P) (cipher P) (lib P) cfg test s
      | Fips_test_skcipher \<Rightarrow> fips_test_skcipher (mem P) (skcipher P) cfg test s
      | Fips_test_aead \<Rightarrow> fips_test_aead (mem P) (aead P) cfg test s
      | Fips_test_hash \<Rightarrow> fips_test_hash (mem P) (shash P) cfg test s
      | Fips_test_sha256_library \<Rightarrow> fips_test_sha256_library (mem P) (lib P) cfg test s
      | Fips_test_drbg \<Rightarrow> fips_test_drbg (mem P) (rng P) cfg test s)"

text \<open>
  The loop of \<^verbatim>\<open>fips140_run_selftests\<close> over the entries that are left, from the
  entry at the index \<open>i\<close> on.
\<close>

fun selftests_loop ::
  "('w, 'h) kernel \<Rightarrow> config \<Rightarrow> fips_test list \<Rightarrow> 'w kstate \<Rightarrow> (bool \<times> 'w kstate) option" where
  "selftests_loop P cfg [] s = Some (True, pr_info ''all self-tests passed'' [] s)"
| "selftests_loop P cfg (test # tests) s = do {
     (err, s) \<leftarrow> call_func P cfg test s;
     if err \<noteq> 0
     then Some (False,
                pr_emerg ''self-tests failed for algorithm %s: %d'' [Str (alg test), Num err] s)
     else selftests_loop P cfg tests s
   }"

definition fips140_run_selftests ::
  "('w, 'h) kernel \<Rightarrow> config \<Rightarrow> generated_testvecs \<Rightarrow> 'w kstate \<Rightarrow> (bool \<times> 'w kstate) option" where
  "fips140_run_selftests P cfg V s =
     selftests_loop P cfg (fips140_selftests V) (pr_info ''running self-tests'' [] s)"

subsection \<open>Notions used to state the properties\<close>

text \<open>The algorithm carries \<^verbatim>\<open>CRYPTO_ALG_ASYNC\<close>, the bit 7 of its flags.\<close>

definition is_async :: "crypto_alg \<Rightarrow> bool" where
  "is_async a = bit (cra_flags a) 7"

text \<open>The pointer \<open>p\<close> can be read for \<open>n\<close> bytes, and the bytes read.\<close>

definition holds :: "u8 list option \<Rightarrow> size_t \<Rightarrow> bool" where
  "holds p n = (n = 0 \<or> (case p of None \<Rightarrow> False | Some buf \<Rightarrow> unat n \<le> length buf))"

definition bytes_at :: "u8 list option \<Rightarrow> nat \<Rightarrow> u8 list" where
  "bytes_at p n = take n (case p of None \<Rightarrow> [] | Some buf \<Rightarrow> buf)"

text \<open>A buffer of at least one byte after \<^verbatim>\<open>result[0] ^= 0xff\<close>.\<close>

definition corrupted :: "u8 list \<Rightarrow> u8 list" where
  "corrupted result = (hd result XOR 0xff) # tl result"

text \<open>The size of the first result that the driver of a test compares.\<close>

definition first_result_size :: "fips_test \<Rightarrow> size_t" where
  "first_result_size test =
     (case vector test of
        Blockcipher v \<Rightarrow> bc_block_size v
      | Aead v \<Rightarrow> aead_ciphertext_size v
      | Skcipher v \<Rightarrow> sk_message_size v
      | Hash v \<Rightarrow> hash_digest_size v
      | Drbg v \<Rightarrow> drbg_out_size v)"

text \<open>
  The drivers of the tests of a list, called one after the other, all return 0:
  \<open>Some s'\<close> with the state they leave, \<open>None\<close> otherwise.
\<close>

fun drivers_pass ::
  "('w, 'h) kernel \<Rightarrow> config \<Rightarrow> fips_test list \<Rightarrow> 'w kstate \<Rightarrow> 'w kstate option" where
  "drivers_pass P cfg [] s = Some s"
| "drivers_pass P cfg (test # tests) s =
     (case call_func P cfg test s of
        None \<Rightarrow> None
      | Some (err, s') \<Rightarrow> if err = 0 then drivers_pass P cfg tests s' else None)"

subsection \<open>A small kernel and small tests, for concrete runs\<close>

text \<open>
  The world of the small kernel is the number of DRBG generations made so far. Its
  ciphers flip bits, its AEAD appends a tag of bytes \<open>0xAA\<close>, its hash is \<open>digest\<close>.
  The parameters are what \<^verbatim>\<open>crypto_alloc_*\<close> returns, the flags of the algorithms and
  the sizes the instances report.
\<close>

definition toy_alg :: "u32 \<Rightarrow> crypto_alg" where
  "toy_alg flags = \<lparr>cra_flags = flags, cra_name = ''toy'', cra_driver_name = ''toy-generic''\<rparr>"

definition toy_xor :: "u8 list \<Rightarrow> u8 list" where
  "toy_xor bs = map (\<lambda>b. b XOR 0x5A) bs"

definition toy_mem :: "nat mem_api" where
  "toy_mem = \<lparr>kmalloc_succeeds = (\<lambda>n w. (True, w)), kfree_object = id,
               indeterminate = (\<lambda>n w. [])\<rparr>"

definition toy_cipher :: "unit ptr \<Rightarrow> u32 \<Rightarrow> u32 \<Rightarrow> (nat, unit) cipher_api" where
  "toy_cipher p flags sz = \<lparr>
     crypto_alloc_cipher = (\<lambda>name w. (p, w)),
     crypto_cipher_alg = (\<lambda>tfm. toy_alg flags),
     crypto_cipher_blocksize = (\<lambda>tfm. sz),
     crypto_cipher_setkey = (\<lambda>tfm key w. (0, w)),
     crypto_cipher_encrypt_one = (\<lambda>tfm src w. (toy_xor src, w)),
     crypto_cipher_decrypt_one = (\<lambda>tfm src w. (toy_xor src, w)),
     crypto_free_cipher = (\<lambda>tfm w. w)\<rparr>"

definition toy_lib :: "nat lib_api" where
  "toy_lib = \<lparr>
     aes_expandkey = (\<lambda>key w. ((0, []), w)),
     aes_encrypt = (\<lambda>ctx src w. (toy_xor src, w)),
     aes_decrypt = (\<lambda>ctx src w. (toy_xor src, w)),
     sha256 = (\<lambda>message w. (replicate 32 (of_nat (length message)), w))\<rparr>"

definition toy_skcipher :: "unit ptr \<Rightarrow> u32 \<Rightarrow> u32 \<Rightarrow> (nat, unit) skcipher_api" where
  "toy_skcipher p flags sz = \<lparr>
     crypto_alloc_skcipher = (\<lambda>name w. (p, w)),
     crypto_skcipher_alg = (\<lambda>tfm. toy_alg flags),
     crypto_skcipher_ivsize = (\<lambda>tfm. sz),
     skcipher_request_alloc = (\<lambda>tfm w. (True, w)),
     crypto_skcipher_setkey = (\<lambda>tfm key w. (0, w)),
     crypto_skcipher_encrypt = (\<lambda>tfm iv src w. ((0, iv, toy_xor src), w)),
     crypto_skcipher_decrypt = (\<lambda>tfm iv src w. ((0, iv, toy_xor src), w)),
     skcipher_request_free = id,
     crypto_free_skcipher = (\<lambda>tfm w. w)\<rparr>"

definition toy_aead :: "unit ptr \<Rightarrow> u32 \<Rightarrow> u32 \<Rightarrow> (nat, unit) aead_api" where
  "toy_aead p flags sz = \<lparr>
     crypto_alloc_aead = (\<lambda>name w. (p, w)),
     crypto_aead_alg = (\<lambda>tfm. toy_alg flags),
     crypto_aead_ivsize = (\<lambda>tfm. sz),
     aead_request_alloc = (\<lambda>tfm w. (True, w)),
     crypto_aead_setkey = (\<lambda>tfm key w. (0, w)),
     crypto_aead_setauthsize = (\<lambda>tfm authsize w. (0, w)),
     crypto_aead_encrypt = (\<lambda>tfm iv ad src w. ((0, iv, toy_xor src @ replicate 16 0xAA), w)),
     crypto_aead_decrypt = (\<lambda>tfm iv ad src w. ((0, iv, toy_xor src), w)),
     aead_request_free = id,
     crypto_free_aead = (\<lambda>tfm w. w)\<rparr>"

definition toy_shash ::
  "unit ptr \<Rightarrow> u32 \<Rightarrow> u32 \<Rightarrow> (u8 list \<Rightarrow> u8 list) \<Rightarrow> (nat, unit) shash_api" where
  "toy_shash p flags sz digest = \<lparr>
     crypto_alloc_shash = (\<lambda>name w. (p, w)),
     crypto_shash_alg = (\<lambda>tfm. toy_alg flags),
     crypto_shash_digestsize = (\<lambda>tfm. sz),
     crypto_shash_setkey = (\<lambda>tfm key w. (0, w)),
     crypto_shash_tfm_digest = (\<lambda>tfm message w. ((0, digest message), w)),
     crypto_free_shash = (\<lambda>tfm w. w)\<rparr>"

text \<open>The DRBG: a generation returns bytes that count the generations before it.\<close>

definition toy_rng :: "unit ptr \<Rightarrow> u32 \<Rightarrow> int \<Rightarrow> int \<Rightarrow> int \<Rightarrow> (nat, unit) rng_api" where
  "toy_rng p flags reset_err err_a err_b = \<lparr>
     crypto_alloc_rng = (\<lambda>name w. (p, w)),
     crypto_rng_alg = (\<lambda>rng. toy_alg flags),
     crypto_drbg_reset_test = (\<lambda>rng pers entropy w. (reset_err, 0)),
     crypto_drbg_get_bytes_addtl_test =
       (\<lambda>rng n addtl entropy w. ((if w = 0 then err_a else err_b, replicate n (of_nat w)), Suc w)),
     crypto_drbg_get_bytes_addtl =
       (\<lambda>rng n addtl w. ((if w = 0 then err_a else err_b, replicate n (of_nat w)), Suc w)),
     crypto_free_rng = (\<lambda>rng w. w)\<rparr>"

definition toy_digest :: "u8 list \<Rightarrow> u8 list" where
  "toy_digest message = [of_nat (length message), 0xAB]"

definition toy_kernel :: "unit ptr \<Rightarrow> u32 \<Rightarrow> (nat, unit) kernel" where
  "toy_kernel p flags = \<lparr>
     mem = toy_mem,
     cipher = toy_cipher p flags 16,
     lib = toy_lib,
     skcipher = toy_skcipher p flags 2,
     aead = toy_aead p flags 2,
     shash = toy_shash p flags 2 toy_digest,
     rng = toy_rng p flags 0 0 0\<rparr>"

definition toy_state :: "nat kstate" where
  "toy_state = \<lparr>world = 0, klog = []\<rparr>"

definition no_injection :: config where
  "no_injection = \<lparr>error_injection = True, fips140_broken_alg = None\<rparr>"

definition inject_into :: "string \<Rightarrow> config" where
  "inject_into name = \<lparr>error_injection = True, fips140_broken_alg = Some name\<rparr>"

definition toy_aes_test :: fips_test where
  "toy_aes_test = \<lparr>alg = ''aes'', func = Fips_test_aes, vector = Blockcipher \<lparr>
     bc_key = Some [1, 2],
     bc_key_size = 2,
     bc_plaintext = Some [0, 1, 2, 3, 4, 5, 6, 7, 8, 9, 10, 11, 12, 13, 14, 15],
     bc_ciphertext = Some [90, 91, 88, 89, 94, 95, 92, 93, 82, 83, 80, 81, 86, 87, 84, 85],
     bc_block_size = 16\<rparr>\<rparr>"

definition toy_skcipher_test :: fips_test where
  "toy_skcipher_test = \<lparr>alg = ''cbc(aes)'', func = Fips_test_skcipher, vector = Skcipher \<lparr>
     sk_key = Some [1, 2],
     sk_key_size = 2,
     sk_iv = Some [7, 8],
     sk_iv_size = 2,
     sk_plaintext = Some [1, 2, 3, 4],
     sk_ciphertext = Some [91, 88, 89, 94],
     sk_message_size = 4\<rparr>\<rparr>"

definition toy_aead_test :: fips_test where
  "toy_aead_test = \<lparr>alg = ''gcm(aes)'', func = Fips_test_aead, vector = Aead \<lparr>
     aead_key = Some [1, 2],
     aead_key_size = 2,
     aead_iv = Some [7, 8],
     aead_iv_size = 2,
     aead_assoc = Some [9],
     aead_assoc_size = 1,
     aead_plaintext = Some [1, 2, 3],
     aead_plaintext_size = 3,
     aead_ciphertext = Some [91, 88, 89, 170, 170],
     aead_ciphertext_size = 5\<rparr>\<rparr>"

definition toy_hash_test :: fips_test where
  "toy_hash_test = \<lparr>alg = ''sha1'', func = Fips_test_hash, vector = Hash \<lparr>
     hash_key = None,
     hash_key_size = 0,
     hash_message = Some [1, 2, 3],
     hash_message_size = 3,
     hash_digest = Some [3, 171],
     hash_digest_size = 2\<rparr>\<rparr>"

definition toy_sha256_test :: fips_test where
  "toy_sha256_test = \<lparr>alg = ''sha256'', func = Fips_test_sha256_library, vector = Hash \<lparr>
     hash_key = None,
     hash_key_size = 0,
     hash_message = Some [1, 2, 3],
     hash_message_size = 3,
     hash_digest = Some (replicate 32 3),
     hash_digest_size = 32\<rparr>\<rparr>"

definition toy_drbg_test :: fips_test where
  "toy_drbg_test = \<lparr>alg = ''drbg_nopr_hmac_sha256'', func = Fips_test_drbg, vector = Drbg \<lparr>
     drbg_entropy = Some [1, 2, 3],
     drbg_entropy_size = 3,
     drbg_pers = None,
     drbg_pers_size = 0,
     drbg_entpr_a = None,
     drbg_entpr_b = None,
     drbg_entpr_size = 0,
     drbg_add_a = Some [4, 5],
     drbg_add_b = Some [6, 7],
     drbg_add_size = 2,
     drbg_output = Some [1, 1, 1, 1],
     drbg_out_size = 4\<rparr>\<rparr>"

section \<open>Properties\<close>

subsection \<open>Basic facts\<close>

lemma length_fit [simp]: "length (fit n bs) = n"
  by (simp add: fit_def)

lemma neg_EBADMSG_nonzero: "- EBADMSG \<noteq> 0"
  by (simp add: EBADMSG_def)

lemma injects_inject_into [simp]: "injects (inject_into name) test = (alg test = name)"
  by (simp add: injects_def inject_into_def)

lemma injects_no_injection [simp]: "\<not> injects no_injection test"
  by (simp add: injects_def no_injection_def)

lemma neg_EINVAL_nonzero: "- EINVAL \<noteq> 0"
  by (simp add: EINVAL_def)

lemmas errno_defs = EINVAL_def EBADMSG_def ENOMEM_def

lemma unat_ucast_u32 [simp]: "unat (ucast (x::u32) :: size_t) = unat x"
proof -
  have "unat x < 2 ^ 32" using unsigned_less [of x] by simp
  then have "unat x < 2 ^ 64" by (rule less_trans) simp
  then show ?thesis by (simp add: unsigned_ucast_eq take_bit_nat_eq_self)
qed

lemma ucast_u32_eqD: "(ucast (x::u32) :: size_t) = y \<Longrightarrow> unat x = unat y"
  by (metis unat_ucast_u32)

lemma xor_ff_neq: "(a::u8) XOR 0xff \<noteq> a"
proof
  assume "a XOR 0xff = a"
  then have "(a XOR 0xff) XOR a = a XOR a" by simp
  then have "(0xff::u8) = 0" by (simp add: xor.commute xor.left_commute)
  then show False by simp
qed

lemma async_flag: "(flags AND CRYPTO_ALG_ASYNC \<noteq> 0) = bit (flags :: u32) 7"
proof -
  have "(flags AND 2 ^ 7 = 0) = (\<not> bit flags 7)"
    by (rule and_exp_eq_0_iff_not_bit)
  then show ?thesis by (simp add: CRYPTO_ALG_ASYNC_def)
qed

lemma call_eq:
  "call name args f s =
     (fst (f (world s)), \<lparr>world = snd (f (world s)), klog = klog s @ [Call name args]\<rparr>)"
  by (simp add: call_def split: prod.splits)

lemma new_events_append [simp]: "new_events s \<lparr>world = w, klog = klog s @ es\<rparr> = es"
  by (simp add: new_events_def)

lemmas run_defs = call_eq call_void_def emit_def pr_err_def IS_ERR_def PTR_ERR_def deref_def
  fips_validate_alg_def kfree_def

subsection \<open>The comparator\<close>

text \<open>
  C2. When the fault injection does not apply to the test, and both buffers hold the
  \<open>result_size\<close> bytes that are compared, the comparator returns 0 if the first
  \<open>result_size\<close> bytes of \<open>result\<close> equal those of \<open>expected_result\<close>, and otherwise
  \<open>-EBADMSG\<close> (which is not 0) after printing a message with the algorithm and the
  operation; it leaves \<open>result\<close> as it is.
\<close>

theorem fips_check_result_compares:
  assumes "\<not> injects cfg test"
    and "unat result_size \<le> length result"
    and "unat result_size \<le> length expected"
  shows "fips_check_result cfg test result (Some expected) result_size operation s =
           Some (if take (unat result_size) result = take (unat result_size) expected
                 then (0, result, s)
                 else (- EBADMSG, result,
                       emit (Printk KERN_ERR ''wrong result from %s %s''
                               [Str (alg test), Str operation]) s))
         \<and> - EBADMSG \<noteq> (0::int)"
  using assms
  by (simp add: fips_check_result_def memcmp_differs_def read_bytes_def read_ptr_def
      pr_err_def EBADMSG_def)

theorem fips_check_result_compares_witness:
  "fips_check_result no_injection toy_hash_test [3, 171, 9] (Some [3, 171, 8]) 2 ''digest''
     toy_state = Some (0, [3, 171, 9], toy_state)
   \<and> fips_check_result (inject_into ''aes'') toy_hash_test [3, 171, 9] (Some [3, 171, 8]) 3
       ''digest'' toy_state
     = Some (- EBADMSG, [3, 171, 9],
             emit (Printk KERN_ERR ''wrong result from %s %s'' [Str ''sha1'', Str ''digest''])
               toy_state)"
  using fips_check_result_compares [of no_injection toy_hash_test 2 "[3, 171, 9]" "[3, 171, 8]"
      "''digest''" toy_state]
    fips_check_result_compares [of "inject_into ''aes''" toy_hash_test 3 "[3, 171, 9]"
      "[3, 171, 8]" "''digest''" toy_state]
  by (simp add: toy_hash_test_def)

text \<open>
  C10, as amended. For \<open>result_size = 0\<close> the comparator returns 0, whatever the two
  buffers hold, provided that \<open>result\<close> holds at least one byte or the fault injection
  does not apply to the test. (With the fault injection applying, the comparator writes
  \<open>result[0]\<close> before it compares.)
\<close>

theorem fips_check_result_zero_size:
  assumes "result \<noteq> [] \<or> \<not> injects cfg test"
  shows "fips_check_result cfg test result expected 0 operation s =
           Some (0, if injects cfg test then (hd result XOR 0xff) # tl result else result, s)"
  using assms
  by (cases result)
     (auto simp: fips_check_result_def memcmp_differs_def read_bytes_def read_ptr_def
        corrupt_def)

theorem fips_check_result_zero_size_witness:
  "fips_check_result (inject_into ''sha1'') toy_hash_test [3, 171] (Some [1]) 0 ''digest''
     toy_state = Some (0, [252, 171], toy_state)
   \<and> fips_check_result no_injection toy_hash_test [] None 0 ''digest'' toy_state
     = Some (0, [], toy_state)"
  using fips_check_result_zero_size [of "[3, 171]" "inject_into ''sha1''" toy_hash_test
      "Some [1]" "''digest''" toy_state]
    fips_check_result_zero_size [of "[]" no_injection toy_hash_test None "''digest''" toy_state]
  by (simp add: toy_hash_test_def)

text \<open>
  C10 as stated fails: with the fault injection applying to the test and an empty
  \<open>result\<close> buffer (what \<^verbatim>\<open>kzalloc\<close> and \<^verbatim>\<open>kmemdup\<close> return for the sz 0), the comparator
  does not return: it writes \<open>result[0]\<close>, outside the buffer.
\<close>

theorem fips_check_result_zero_size_counterexample:
  "fips_check_result (inject_into ''sha1'') toy_hash_test [] (Some []) 0 ''digest'' toy_state
   = None"
  by (simp add: fips_check_result_def corrupt_def toy_hash_test_def)

end
